theory Spec2Isabelle
  imports Main "HOL-Library.Word" "HOL-Library.AList" "HOL-Library.Sublist"
begin

unbundle bit_operations_syntax

section \<open>List request parameters\<close>

text \<open>
  \<^verbatim>\<open>api_test.go\<close> builds a \<^verbatim>\<open>ListRequestParams{Limit: tt.in}\<close> and calls
  \<^verbatim>\<open>params.GetLimit()\<close>. The struct holds a Go \<^verbatim>\<open>int\<close>; no arithmetic is done on
  it, so it is an \<open>int\<close> here.
\<close>

record ListRequestParams =
  Limit :: int

text \<open>
  Modelled from the spec: the method \<^verbatim>\<open>GetLimit\<close> of \<^verbatim>\<open>ListRequestParams\<close>, whose
  declaration is not among the source files (only its test is). Section 4.2 gives the
  rule as an exact table: a requested limit \<open>\<le> 0\<close> yields the default page size 10, a
  requested limit \<open>> 1000\<close> yields the maximum page size 1000, any other value is returned
  unchanged.
\<close>

definition GetLimit :: "ListRequestParams \<Rightarrow> int" where
  "GetLimit params =
     (if Limit params \<le> 0 then 10
      else if Limit params > 1000 then 1000
      else Limit params)"

text \<open>The table of \<^verbatim>\<open>TestEventsRequestParamsLimit\<close>: pairs of input and expected output.\<close>

definition limits :: "(int \<times> int) list" where
  "limits = [(1, 1), (-1, 10), (0, 10), (1001, 1000), (100, 100)]"

section \<open>Metadata: Go maps on a store\<close>

text \<open>
  \<^verbatim>\<open>type Metadata map[string]interface{}\<close>. A Go map value is either \<^verbatim>\<open>nil\<close> or a
  reference to a table that every copy of the value shares, so the tables live in a
  store and a \<open>Metadata\<close> is \<open>None\<close> (nil) or the address of its table. A table is the
  list of its entries in the order \<^verbatim>\<open>range\<close> visits them (Go leaves that order open:
  every statement below holds for each order). Keys are Go strings, that is byte
  sequences: \<open>length k\<close> is Go's \<^verbatim>\<open>len(k)\<close>. The values are \<^verbatim>\<open>interface{}\<close>, any type \<open>'v\<close>.
\<close>

type_synonym addr = nat
type_synonym 'v gomap = "(string \<times> 'v) list"
type_synonym 'v store = "addr \<Rightarrow> 'v gomap"
type_synonym Metadata = "addr option"

text \<open>The store in which no table has an entry yet.\<close>

definition no_tables :: "'v store" where
  "no_tables = (\<lambda>a. [])"

datatype panic = AssignmentToEntryInNilMap

definition entries :: "'v store \<Rightarrow> Metadata \<Rightarrow> 'v gomap" where
  \<comment> \<open>what \<^verbatim>\<open>range m\<close> visits; a nil map has no entry\<close>
  "entries s m = (case m of None \<Rightarrow> [] | Some a \<Rightarrow> s a)"

definition keys :: "'v store \<Rightarrow> Metadata \<Rightarrow> string set" where
  "keys s m = fst ` set (entries s m)"

definition len :: "'v store \<Rightarrow> Metadata \<Rightarrow> nat" where
  \<comment> \<open>\<^verbatim>\<open>len(m)\<close>; 0 for a nil map\<close>
  "len s m = length (entries s m)"

definition mapaccess2 :: "'v store \<Rightarrow> Metadata \<Rightarrow> string \<Rightarrow> 'v option" where
  \<comment> \<open>\<^verbatim>\<open>v, ok := m[k]\<close>: \<open>Some v\<close> when \<open>ok\<close>; reading a nil map finds nothing\<close>
  "mapaccess2 s m k = map_of (entries s m) k"

definition mapassign :: "'v store \<Rightarrow> Metadata \<Rightarrow> string \<Rightarrow> 'v \<Rightarrow> panic + 'v store" where
  \<comment> \<open>\<^verbatim>\<open>m[k] = v\<close>: writing to a nil map panics\<close>
  "mapassign s m k v =
     (case m of
        None \<Rightarrow> Inl AssignmentToEntryInNilMap
      | Some a \<Rightarrow> Inr (s(a := AList.update k v (s a))))"

text \<open>
  \<^verbatim>\<open>func (m Metadata) merge(other Metadata)\<close>: the body of the \<^verbatim>\<open>range\<close> loop, run over
  the entries of \<open>other\<close> found when the loop starts. Each pass reads and writes the
  current store, so the model also covers \<open>m\<close> and \<open>other\<close> being the same table.
\<close>

fun merge_range :: "Metadata \<Rightarrow> 'v gomap \<Rightarrow> 'v store \<Rightarrow> panic + 'v store" where
  "merge_range m [] s = Inr s"
| "merge_range m ((k, v) # rest) s =
     (case mapaccess2 s m k of
        None \<Rightarrow>
          (case mapassign s m k v of
             Inl p \<Rightarrow> Inl p
           | Inr s' \<Rightarrow> merge_range m rest s')
      | Some _ \<Rightarrow> merge_range m rest s)"

definition merge :: "'v store \<Rightarrow> Metadata \<Rightarrow> Metadata \<Rightarrow> panic + 'v store" where
  "merge s m other = merge_range m (entries s other) s"

subsection \<open>Validation\<close>

text \<open>
  The two errors of \<^verbatim>\<open>validate\<close>: the package variable \<^verbatim>\<open>errTooMuchMetadataKeys\<close> and
  the value of \<^verbatim>\<open>fmt.Errorf("metadata key %q exceed 40 characters: %d", k, l)\<close>, kept
  with its two arguments.
\<close>

datatype error = errTooMuchMetadataKeys | errMetadataKey string nat

fun validate_range :: "'v gomap \<Rightarrow> error option" where
  "validate_range [] = None"
| "validate_range ((k, v) # rest) =
     (if length k > 40 then Some (errMetadataKey k (length k)) else validate_range rest)"

definition validate :: "'v store \<Rightarrow> Metadata \<Rightarrow> error option" where
  \<comment> \<open>\<open>None\<close> is the \<^verbatim>\<open>nil\<close> error\<close>
  "validate s m =
     (if len s m > 50 then Some errTooMuchMetadataKeys
      else validate_range (entries s m))"






subsection \<open>Keys as text\<close>

text \<open>
  A Go string holds text in UTF-8: \<^verbatim>\<open>utf8.EncodeRune\<close> turns a character (a code point)
  into one to four bytes; a surrogate or a value beyond \<open>U+10FFFF\<close> is written as
  \<open>U+FFFD\<close>. \<open>utf8 rs\<close> is the string of the characters \<open>rs\<close>.
\<close>

definition EncodeRune :: "nat \<Rightarrow> string" where
  "EncodeRune r =
     (if r < 0x80 then [char_of r]
      else if r < 0x800 then [char_of (0xC0 + r div 0x40), char_of (0x80 + r mod 0x40)]
      else if 0x10FFFF < r \<or> (0xD800 \<le> r \<and> r \<le> 0xDFFF) then
        [char_of (0xEF::nat), char_of (0xBF::nat), char_of (0xBD::nat)]
      else if r < 0x10000 then
        [char_of (0xE0 + r div 0x1000), char_of (0x80 + r div 0x40 mod 0x40),
         char_of (0x80 + r mod 0x40)]
      else
        [char_of (0xF0 + r div 0x40000), char_of (0x80 + r div 0x1000 mod 0x40),
         char_of (0x80 + r div 0x40 mod 0x40), char_of (0x80 + r mod 0x40)])"

definition utf8 :: "nat list \<Rightarrow> string" where
  "utf8 rs = concat (map EncodeRune rs)"

text \<open>
  Tables for the examples: \<open>crowd c n\<close> has the \<open>n\<close> keys \<open>c\<close>, \<open>cc\<close>, \<open>ccc\<close>, ... of
  lengths 1 to \<open>n\<close>.
\<close>

definition crowd :: "char \<Rightarrow> nat \<Rightarrow> int gomap" where
  "crowd c n = map (\<lambda>i. (replicate (Suc i) c, int i)) [0..<n]"

section \<open>Defaults of an event\<close>

subsection \<open>Timestamps\<close>

text \<open>
  \<^verbatim>\<open>time.Time\<close> is a struct of a wall-clock word, an extension word and a pointer to a
  location; \<^verbatim>\<open>t == (time.Time{})\<close> compares the three fields with those of the zero
  value. The clock and the conversion of package \<^verbatim>\<open>time\<close> are parameters: \<open>Now\<close> is
  what \<^verbatim>\<open>time.Now()\<close> returns at the call, \<open>UTC\<close> is the method \<^verbatim>\<open>Time.UTC\<close>.
\<close>

record Time =
  wall :: "64 word"
  ext :: "64 word"
  loc :: "addr option"

definition Time_zero :: Time where
  "Time_zero = \<lparr>wall = 0, ext = 0, loc = None\<rparr>"

definition defaultTime :: "Time \<Rightarrow> (Time \<Rightarrow> Time) \<Rightarrow> Time \<Rightarrow> Time" where
  "defaultTime Now UTC t = (if t = Time_zero then UTC Now else t)"

subsection \<open>Idempotency keys\<close>

text \<open>
  \<^verbatim>\<open>uuid.New().String()\<close> of the package \<^verbatim>\<open>github.com/google/uuid\<close>, a dependency of
  the repository. \<^verbatim>\<open>New\<close> fills the 16 bytes of a \<^verbatim>\<open>UUID\<close> from the random reader (the
  byte stream \<open>rand\<close> here), then sets the version to 4 in byte 6 and the variant to
  binary 10 in byte 8. \<^verbatim>\<open>String\<close> writes the bytes in lower-case hexadecimal, in
  groups of 4, 2, 2, 2 and 6 bytes with a dash between the groups.
\<close>

type_synonym UUID = "8 word list"

definition uuid_New :: "(nat \<Rightarrow> 8 word) \<Rightarrow> UUID" where
  "uuid_New rand =
     (let uuid = map rand [0..<16];
          uuid = uuid[6 := (uuid ! 6 AND 0x0f) OR 0x40];
          uuid = uuid[8 := (uuid ! 8 AND 0x3f) OR 0x80]
      in uuid)"

definition hextable :: string where
  "hextable = ''0123456789abcdef''"

definition hex_Encode :: "8 word list \<Rightarrow> string" where
  "hex_Encode src =
     concat (map (\<lambda>v. [hextable ! unat (drop_bit 4 v), hextable ! unat (v AND 0x0f)]) src)"

definition uuid_String :: "UUID \<Rightarrow> string" where
  "uuid_String uuid =
     hex_Encode (take 4 uuid) @ ''-'' @ hex_Encode (take 2 (drop 4 uuid)) @ ''-'' @
     hex_Encode (take 2 (drop 6 uuid)) @ ''-'' @ hex_Encode (take 2 (drop 8 uuid)) @ ''-'' @
     hex_Encode (drop 10 uuid)"

definition defaultIdempotencyKey :: "(nat \<Rightarrow> 8 word) \<Rightarrow> string \<Rightarrow> string" where
  "defaultIdempotencyKey rand key = (if key = [] then uuid_String (uuid_New rand) else key)"

text \<open>
  The standard textual representation of a UUID, as the spec asks for it: 36 characters,
  a dash at positions 8, 13, 18 and 23, a hexadecimal digit everywhere else. A version-4
  UUID has the digit 4 at position 14 and one of 8, 9, a, b at position 19.
\<close>

definition is_uuid_text :: "string \<Rightarrow> bool" where
  "is_uuid_text x \<longleftrightarrow>
     length x = 36 \<and>
     list_all (\<lambda>i. if i \<in> {8, 13, 18, 23} then x ! i = CHR ''-'' else x ! i \<in> set hextable)
       [0..<36]"

definition is_uuid_v4_text :: "string \<Rightarrow> bool" where
  "is_uuid_v4_text x \<longleftrightarrow> is_uuid_text x \<and> x ! 14 = CHR ''4'' \<and> x ! 19 \<in> set ''89ab''"

subsection \<open>Events\<close>

type_synonym ActionType = string

definition Create :: ActionType where "Create = ''C''"

definition Read :: ActionType where "Read = ''R''"

definition Update :: ActionType where "Update = ''U''"

definition Delete :: ActionType where "Delete = ''D''"

record Event =
  Action :: string
  ActionType :: ActionType
  ActorName :: string
  ActorID :: string
  Group :: string
  IdempotencyKey :: string
  Location :: string
  Metadata :: Metadata
  OccurredAt :: Time
  TargetName :: string
  TargetID :: string

text \<open>
  Modelled from the spec: the preparation of an event, which the repository does in
  \<^verbatim>\<open>Client.Publish\<close>, a method that is not among the source files. Section 4.1 gives its
  steps: (1) default the timestamp, (2) default the idempotency key, (3) merge the global
  metadata into the event's own metadata, (4) validate the merged metadata and (5) on a
  validation failure return the error and no event. The steps are the functions of
  \<^verbatim>\<open>auditlog.go\<close> above; the result is the panic of the merge, the error of the
  validation, or the prepared event with the store the merge left.
\<close>

definition prepare ::
  "Time \<Rightarrow> (Time \<Rightarrow> Time) \<Rightarrow> (nat \<Rightarrow> 8 word) \<Rightarrow> 'v store \<Rightarrow> Event \<Rightarrow> Metadata \<Rightarrow>
   panic + error + Event \<times> 'v store" where
  "prepare Now UTC rand s e GlobalMetadata =
     (let e = e\<lparr>OccurredAt := defaultTime Now UTC (OccurredAt e)\<rparr>;
          e = e\<lparr>IdempotencyKey := defaultIdempotencyKey rand (IdempotencyKey e)\<rparr>
      in case merge s (Metadata e) GlobalMetadata of
           Inl p \<Rightarrow> Inl p
         | Inr s' \<Rightarrow>
             (case validate s' (Metadata e) of
                Some err \<Rightarrow> Inr (Inl err)
              | None \<Rightarrow> Inr (Inr (e, s'))))"

text \<open>
  The event of the package documentation's example, with an idempotency key, a
  timestamp and metadata of its own at address 0.
\<close>

definition example_event :: Event where
  "example_event =
     \<lparr>Action = ''document.viewed'', ActionType = Create, ActorName = ''Jairo Kunde'',
      ActorID = ''user_01DGZ0FAXN978HCET66Q98QMTQ'', Group = ''abstract.com'',
      IdempotencyKey = ''abc'', Location = ''55.27.223.26'', Metadata = Some 0,
      OccurredAt = \<lparr>wall = 5, ext = 7, loc = Some 3\<rparr>, TargetName = ''central.class'',
      TargetID = ''doc_01DGZ0FAXP4HA4X0BVFKS0ZH4Y''\<rparr>"

section \<open>The merge loop\<close>

text \<open>On a nil receiver the first pass of the loop panics; with nothing to visit it returns.\<close>

lemma merge_range_nil:
  "merge_range None es s = (if es = [] then Inr s else Inl AssignmentToEntryInNilMap)"
  by (cases es) (auto simp: mapaccess2_def entries_def mapassign_def)

text \<open>
  On a receiver at address \<open>a\<close> the loop always returns; it writes to the table at \<open>a\<close>
  only, and a key of that table keeps its value.
\<close>

lemma merge_range_ref:
  "\<exists>s'. merge_range (Some a) es s = Inr s' \<and>
        (\<forall>b. b \<noteq> a \<longrightarrow> s' b = s b) \<and>
        (\<forall>k. map_of (s' a) k =
           (case map_of (s a) k of Some v \<Rightarrow> Some v | None \<Rightarrow> map_of es k))"
proof (induction es arbitrary: s)
  case Nil
  show ?case by (simp split: option.split)
next
  case (Cons e es)
  obtain k v where e: "e = (k, v)" by (cases e)
  show ?case
  proof (cases "map_of (s a) k")
    case None
    let ?t = "s(a := AList.update k v (s a))"
    from Cons.IH [of ?t] obtain s' where
      run: "merge_range (Some a) es ?t = Inr s'" and
      frame: "\<forall>b. b \<noteq> a \<longrightarrow> s' b = ?t b" and
      look: "\<forall>j. map_of (s' a) j =
        (case map_of (?t a) j of Some v \<Rightarrow> Some v | None \<Rightarrow> map_of es j)"
      by blast
    have "merge_range (Some a) (e # es) s = Inr s'"
      using None run by (simp add: e mapaccess2_def entries_def mapassign_def)
    moreover have "\<forall>b. b \<noteq> a \<longrightarrow> s' b = s b"
      using frame by simp
    moreover have "\<forall>j. map_of (s' a) j =
        (case map_of (s a) j of Some v \<Rightarrow> Some v | None \<Rightarrow> map_of (e # es) j)"
      using look None by (auto simp: e update_conv' split: option.splits)
    ultimately show ?thesis by blast
  next
    case (Some w)
    from Cons.IH [of s] obtain s' where
      run: "merge_range (Some a) es s = Inr s'" and
      frame: "\<forall>b. b \<noteq> a \<longrightarrow> s' b = s b" and
      look: "\<forall>j. map_of (s' a) j =
        (case map_of (s a) j of Some v \<Rightarrow> Some v | None \<Rightarrow> map_of es j)"
      by blast
    have "merge_range (Some a) (e # es) s = Inr s'"
      using Some run by (simp add: e mapaccess2_def entries_def)
    moreover have "\<forall>j. map_of (s' a) j =
        (case map_of (s a) j of Some v \<Rightarrow> Some v | None \<Rightarrow> map_of (e # es) j)"
      using look Some by (auto simp: e split: option.splits)
    ultimately show ?thesis using frame by blast
  qed
qed

text \<open>
  When every visited key is already in the receiver, no pass writes. This is the case of
  a map merged into itself, so visiting the entries found at the start of the loop loses
  nothing there.
\<close>

lemma merge_range_present:
  "\<forall>k \<in> fst ` set es. map_of (entries s m) k \<noteq> None \<Longrightarrow> merge_range m es s = Inr s"
  by (induction es) (auto simp: mapaccess2_def)

lemma merge_alias: "merge s m m = Inr s"
  unfolding merge_def
  by (rule merge_range_present) (auto simp: map_of_eq_None_iff)

text \<open>A Go map holds each key once; the loop keeps the tables so.\<close>

lemma merge_range_distinct:
  "merge_range m es s = Inr s' \<Longrightarrow> \<forall>a. distinct (map fst (s a)) \<Longrightarrow>
   distinct (map fst (s' a))"
proof (induction es arbitrary: s)
  case Nil
  then show ?case by simp
next
  case (Cons e es)
  obtain k v where e: "e = (k, v)" by (cases e)
  show ?case
  proof (cases "mapaccess2 s m k")
    case (Some w)
    with Cons show ?thesis by (simp add: e)
  next
    case None
    with Cons.prems(1) obtain b where m: "m = Some b"
      by (cases m) (auto simp: e mapassign_def)
    let ?t = "s(b := AList.update k v (s b))"
    have "merge_range m es ?t = Inr s'"
      using Cons.prems(1) None by (simp add: e m mapassign_def)
    moreover have "\<forall>a. distinct (map fst (?t a))"
      using Cons.prems(2) by (simp add: distinct_update)
    ultimately show ?thesis by (rule Cons.IH)
  qed
qed

section \<open>The validation loop\<close>

text \<open>The loop over the keys returns no error exactly when no key is longer than 40.\<close>

lemma validate_range_None:
  "validate_range es = None \<longleftrightarrow> (\<forall>k \<in> fst ` set es. length k \<le> 40)"
  by (induction es rule: validate_range.induct) (auto split: if_splits)

text \<open>An error of the loop names a key of the map that is too long, with its length.\<close>

lemma validate_range_Some:
  "validate_range es = Some e \<Longrightarrow>
   \<exists>k \<in> fst ` set es. 40 < length k \<and> e = errMetadataKey k (length k)"
  by (induction es rule: validate_range.induct) (auto split: if_splits)

lemma validate_range_long:
  assumes "\<exists>k \<in> fst ` set es. 40 < length k"
  shows "\<exists>k \<in> fst ` set es. 40 < length k \<and>
           validate_range es = Some (errMetadataKey k (length k))"
proof -
  from assms have "validate_range es \<noteq> None"
    unfolding validate_range_None by fastforce
  then obtain e where e: "validate_range es = Some e" by auto
  from validate_range_Some [OF e] e show ?thesis by auto
qed

lemma validate_key_error:
  assumes "len s m \<le> 50" and "\<exists>k \<in> keys s m. 40 < length k"
  shows "\<exists>k \<in> keys s m. 40 < length k \<and> validate s m = Some (errMetadataKey k (length k))"
  using validate_range_long [of "entries s m"] assms
  by (simp add: validate_def keys_def)

lemma validate_None_iff:
  "validate s m = None \<longleftrightarrow> len s m \<le> 50 \<and> (\<forall>k \<in> keys s m. length k \<le> 40)"
  by (auto simp: validate_def keys_def validate_range_None)

text \<open>The example tables.\<close>

lemma len_crowd: "len (no_tables(a := crowd c n @ crowd d j)) (Some a) = n + j"
  by (simp add: len_def entries_def crowd_def)

lemma keys_crowd:
  "keys (no_tables(a := crowd c n @ crowd d j)) (Some a) =
     (\<lambda>i. replicate (Suc i) c) ` {0..<n} \<union> (\<lambda>i. replicate (Suc i) d) ` {0..<j}"
  by (simp add: keys_def entries_def crowd_def image_Un image_image)

text \<open>
  The letter e with an acute accent, \<open>U+00E9\<close>, is the two bytes \<open>C3 A9\<close>: a key of 21
  of them has 42 bytes.
\<close>

lemma EncodeRune_e_acute: "map of_char (EncodeRune 0xE9) = [0xC3, 0xA9 :: nat]"
  by (simp add: EncodeRune_def)

lemma length_utf8_replicate: "length (utf8 (replicate n r)) = n * length (EncodeRune r)"
  by (induction n) (simp_all add: utf8_def)

lemma length_utf8_e_acute: "length (utf8 (replicate 21 0xE9)) = 42"
  by (simp add: length_utf8_replicate EncodeRune_def)

section \<open>The text of a new UUID\<close>

text \<open>Each half of a byte indexes the table of the 16 hexadecimal digits.\<close>

lemma lo_mask: "(v :: 8 word) AND 0x0f = take_bit 4 v"
  by (simp add: take_bit_eq_mask mask_eq_exp_minus_1)

lemma lo_mask6: "(v :: 8 word) AND 0x3f = take_bit 6 v"
  by (simp add: take_bit_eq_mask mask_eq_exp_minus_1)

lemma hextable_nth: "n < 16 \<Longrightarrow> hextable ! n \<in> set hextable"
  by (rule nth_mem) (simp add: hextable_def)

lemma hi_nibble: "unat (drop_bit 4 (v :: 8 word)) < 16"
proof -
  have "unat (drop_bit 4 v) = unat v div 16"
    by (simp add: drop_bit_eq_div unat_div)
  moreover have "unat v < 256" using unsigned_less [of v] by simp
  ultimately show ?thesis by simp
qed

lemma lo_nibble: "unat ((v :: 8 word) AND 0x0f) < 16"
  unfolding lo_mask by (simp add: take_bit_eq_mod unat_mod)

lemma hex_hi: "hextable ! unat (drop_bit 4 (v :: 8 word)) \<in> set hextable"
  by (rule hextable_nth) (rule hi_nibble)

lemma hex_lo: "hextable ! unat ((v :: 8 word) AND 0x0f) \<in> set hextable"
  by (rule hextable_nth) (rule lo_nibble)

text \<open>The version byte has 4 as its high half, the variant byte 8, 9, 10 or 11.\<close>

lemma version_hi: "drop_bit 4 (((v :: 8 word) AND 0x0f) OR 0x40) = 4"
proof -
  have "drop_bit 4 (0x40 :: 8 word) = 4"
    by (simp add: drop_bit_eq_div)
  then show ?thesis
    unfolding lo_mask by (simp add: drop_bit_or drop_bit_take_bit)
qed

lemma variant_hi:
  "unat (drop_bit 4 (((v :: 8 word) AND 0x3f) OR 0x80)) \<in> {8, 9, 10, 11}"
proof -
  define x where "x = take_bit 2 (drop_bit 4 v)"
  have "drop_bit 4 (0x80 :: 8 word) = 8"
    by (simp add: drop_bit_eq_div)
  then have eq: "drop_bit 4 ((v AND 0x3f) OR 0x80) = x OR 8"
    unfolding lo_mask6 x_def by (simp add: drop_bit_or drop_bit_take_bit)
  have "unat x < 4"
    unfolding x_def by (simp add: take_bit_eq_mod unat_mod)
  then have "unat x = 0 \<or> unat x = 1 \<or> unat x = 2 \<or> unat x = 3"
    by arith
  then have "x = 0 \<or> x = 1 \<or> x = 2 \<or> x = 3"
    by (simp add: word_unat_eq_iff)
  then show ?thesis
    unfolding eq by auto
qed

lemma upt16: "[0..<16] = [0, 1, 2, 3, 4, 5, 6, 7, 8, 9, 10, 11, 12, 13, 14, 15]"
  by code_simp

lemma upt36: "[0..<36] = [0, 1, 2, 3, 4, 5, 6, 7, 8, 9, 10, 11, 12, 13, 14, 15, 16, 17, 18, 19,
    20, 21, 22, 23, 24, 25, 26, 27, 28, 29, 30, 31, 32, 33, 34, 35]"
  by code_simp

lemma uuid_New_bytes:
  "uuid_New rand = [rand 0, rand 1, rand 2, rand 3, rand 4, rand 5,
     (rand 6 AND 0x0f) OR 0x40, rand 7, (rand 8 AND 0x3f) OR 0x80, rand 9,
     rand 10, rand 11, rand 12, rand 13, rand 14, rand 15]"
  by (simp add: uuid_New_def upt16 Let_def)

lemma uuid_String_shape:
  "is_uuid_text
     (uuid_String [b0, b1, b2, b3, b4, b5, b6, b7, b8, b9, b10, b11, b12, b13, b14, b15])"
  unfolding is_uuid_text_def upt36
  by (simp add: uuid_String_def hex_Encode_def hex_hi hex_lo)

lemma uuid_String_14:
  "uuid_String [b0, b1, b2, b3, b4, b5, b6, b7, b8, b9, b10, b11, b12, b13, b14, b15] ! 14
     = hextable ! unat (drop_bit 4 b6)"
  by (simp add: uuid_String_def hex_Encode_def)

lemma uuid_String_19:
  "uuid_String [b0, b1, b2, b3, b4, b5, b6, b7, b8, b9, b10, b11, b12, b13, b14, b15] ! 19
     = hextable ! unat (drop_bit 4 b8)"
  by (simp add: uuid_String_def hex_Encode_def)

lemma uuid_text_shape: "is_uuid_text (uuid_String (uuid_New rand))"
  unfolding uuid_New_bytes by (rule uuid_String_shape)

lemma uuid_text_version: "uuid_String (uuid_New rand) ! 14 = CHR ''4''"
  unfolding uuid_New_bytes uuid_String_14 version_hi by (simp add: hextable_def)

lemma uuid_text_variant: "uuid_String (uuid_New rand) ! 19 \<in> set ''89ab''"
  unfolding uuid_New_bytes uuid_String_19
  using variant_hi [of "rand 8"] by (auto simp: hextable_def)

section \<open>Claims\<close>

text \<open>
  C1. For every integer limit \<open>L\<close>, \<^verbatim>\<open>GetLimit\<close> returns 10 when \<open>L \<le> 0\<close>, 1000 when
  \<open>L > 1000\<close>, and \<open>L\<close> itself otherwise; every row of the test table
  (1 gives 1, -1 gives 10, 0 gives 10, 1001 gives 1000, 100 gives 100) is met.
\<close>

theorem GetLimit_table:
  "(L \<le> 0 \<longrightarrow> GetLimit \<lparr>Limit = L\<rparr> = 10) \<and>
   (L > 1000 \<longrightarrow> GetLimit \<lparr>Limit = L\<rparr> = 1000) \<and>
   (0 < L \<and> L \<le> 1000 \<longrightarrow> GetLimit \<lparr>Limit = L\<rparr> = L) \<and>
   list_all (\<lambda>(i, out). GetLimit \<lparr>Limit = i\<rparr> = out) limits"
  by (simp add: GetLimit_def limits_def)

theorem GetLimit_table_witness:
  "GetLimit \<lparr>Limit = -7\<rparr> = 10 \<and> GetLimit \<lparr>Limit = 5000\<rparr> = 1000 \<and>
   GetLimit \<lparr>Limit = 250\<rparr> = 250 \<and> GetLimit \<lparr>Limit = 1000\<rparr> = 1000"
  using GetLimit_table [of "-7"] GetLimit_table [of 5000] GetLimit_table [of 250]
    GetLimit_table [of 1000]
  by simp



text \<open>
  C8. When the event's own metadata map is nil and the global metadata map is not
  empty, \<^verbatim>\<open>merge\<close> panics on the assignment to an entry of a nil map; \<^verbatim>\<open>merge\<close> returns
  exactly when the receiver is not nil or the global metadata is empty.
\<close>

theorem merge_nil_panics:
  "(entries s g \<noteq> [] \<longrightarrow> merge s None g = Inl AssignmentToEntryInNilMap) \<and>
   ((\<exists>s'. merge s m g = Inr s') \<longleftrightarrow> (m \<noteq> None \<or> entries s g = []))"
proof (cases m)
  case None
  then show ?thesis by (simp add: merge_def merge_range_nil)
next
  case (Some a)
  then show ?thesis
    using merge_range_ref [of a "entries s g" s]
    by (auto simp: merge_def merge_range_nil)
qed

theorem merge_nil_panics_witness:
  "merge (no_tables(1 := [(''env'', 7::int)])) None (Some 1) = Inl AssignmentToEntryInNilMap \<and>
   merge (no_tables(1 := [(''env'', 7::int)])) None (Some 2) =
     Inr (no_tables(1 := [(''env'', 7)])) \<and>
   (\<exists>s'. merge (no_tables(1 := [(''env'', 7::int)])) (Some 0) (Some 1) = Inr s')"
proof -
  let ?s = "no_tables(1 := [(''env'', 7::int)])"
  have "entries ?s (Some 1) \<noteq> []" "entries ?s (Some 2) = []"
    by (simp_all add: entries_def no_tables_def)
  then show ?thesis
    using merge_nil_panics [of ?s "Some 1" None] merge_nil_panics [of ?s "Some 1" "Some 0"]
    by (simp add: merge_def merge_range_nil)
qed

text \<open>
  C10. \<^verbatim>\<open>m.merge(g)\<close> never modifies \<open>g\<close>: when it returns, the table of \<open>g\<close> holds the
  entries it held before (no key added, removed or given another value), also when \<open>m\<close>
  and \<open>g\<close> are the same table; and it does return for every receiver that is not nil.
\<close>

theorem merge_frame_other:
  "(m \<noteq> None \<longrightarrow> (\<exists>s'. merge s m g = Inr s')) \<and>
   (\<forall>s'. merge s m g = Inr s' \<longrightarrow> entries s' g = entries s g)"
proof (cases m)
  case None
  then show ?thesis
    by (auto simp: merge_def merge_range_nil split: if_splits)
next
  case m: (Some a)
  show ?thesis
  proof (cases "g = Some a")
    case True
    then show ?thesis by (simp add: m merge_alias)
  next
    case False
    then show ?thesis
      using merge_range_ref [of a "entries s g" s]
      by (cases g) (auto simp: m merge_def entries_def)
  qed
qed

theorem merge_frame_other_witness:
  "\<exists>s'. merge (no_tables(0 := [(''a'', 1::int)], 1 := [(''a'', 2), (''b'', 3)]))
            (Some 0) (Some 1) = Inr s' \<and>
        entries s' (Some 1) = [(''a'', 2), (''b'', 3)]"
proof -
  let ?s = "no_tables(0 := [(''a'', 1::int)], 1 := [(''a'', 2), (''b'', 3)])"
  have "entries ?s (Some 1) = [(''a'', 2), (''b'', 3)]"
    by (simp add: entries_def)
  then show ?thesis
    using merge_frame_other [of "Some 0" ?s "Some 1"] by auto
qed

text \<open>
  C3, as amended. For every metadata map \<open>m\<close>, \<^verbatim>\<open>validate\<close> returns an error if and only
  if \<open>m\<close> has more than 50 entries or some key of \<open>m\<close> is longer than 40 (in the unit of
  Go's \<^verbatim>\<open>len\<close>): a map with more than 50 keys, so one with 51, fails with the
  too-many-keys error; a map with at most 50 entries that contains a key longer than 40,
  so one of length 41, fails with the key-too-long error of such a key; and a map with
  exactly 50 keys, all of length at most 40, succeeds.
\<close>

theorem validate_iff:
  "(validate s m \<noteq> None \<longleftrightarrow> 50 < len s m \<or> (\<exists>k \<in> keys s m. 40 < length k)) \<and>
   (50 < len s m \<longrightarrow> validate s m = Some errTooMuchMetadataKeys) \<and>
   (len s m \<le> 50 \<and> (\<exists>k \<in> keys s m. 40 < length k) \<longrightarrow>
      (\<exists>k \<in> keys s m. 40 < length k \<and> validate s m = Some (errMetadataKey k (length k)))) \<and>
   (len s m = 50 \<and> (\<forall>k \<in> keys s m. length k \<le> 40) \<longrightarrow> validate s m = None)"
proof -
  have "validate s m \<noteq> None \<longleftrightarrow> 50 < len s m \<or> (\<exists>k \<in> keys s m. 40 < length k)"
    unfolding validate_None_iff by (auto simp: not_le)
  moreover have "50 < len s m \<longrightarrow> validate s m = Some errTooMuchMetadataKeys"
    by (simp add: validate_def)
  moreover have "len s m = 50 \<and> (\<forall>k \<in> keys s m. length k \<le> 40) \<longrightarrow> validate s m = None"
    by (simp add: validate_None_iff)
  ultimately show ?thesis using validate_key_error [of s m] by blast
qed

text \<open>
  A table of 51 short keys, a table of 50 keys with one of 41 characters, and a table of
  50 keys of 1 to 40 characters.
\<close>

theorem validate_iff_witness:
  "validate (no_tables(0 := crowd CHR ''a'' 40 @ crowd CHR ''b'' 11)) (Some 0)
     = Some errTooMuchMetadataKeys \<and>
   validate (no_tables(0 := crowd CHR ''a'' 41 @ crowd CHR ''b'' 9)) (Some 0)
     = Some (errMetadataKey (replicate 41 CHR ''a'') 41) \<and>
   validate (no_tables(0 := crowd CHR ''a'' 40 @ crowd CHR ''b'' 10)) (Some 0) = None"
proof -
  let ?s1 = "no_tables(0 := crowd CHR ''a'' 40 @ crowd CHR ''b'' 11)"
  let ?s2 = "no_tables(0 := crowd CHR ''a'' 41 @ crowd CHR ''b'' 9)"
  let ?s3 = "no_tables(0 := crowd CHR ''a'' 40 @ crowd CHR ''b'' 10)"
  have "50 < len ?s1 (Some 0)" by (simp add: len_crowd)
  then have 1: "validate ?s1 (Some 0) = Some errTooMuchMetadataKeys"
    using validate_iff [of ?s1 "Some 0"] by blast
  have "len ?s3 (Some 0) = 50 \<and> (\<forall>k \<in> keys ?s3 (Some 0). length k \<le> 40)"
    unfolding len_crowd keys_crowd by auto
  then have 3: "validate ?s3 (Some 0) = None"
    using validate_iff [of ?s3 "Some 0"] by blast
  have 2: "validate ?s2 (Some 0) = Some (errMetadataKey (replicate 41 CHR ''a'') 41)"
    by (simp add: validate_def len_def entries_def crowd_def upt_rec numeral_nat)
  from 1 2 3 show ?thesis by blast
qed

text \<open>
  The claim as first written lets every map with a 41-character key fail with the
  key-too-long error. A map of 51 keys, one of them of 41 characters, fails with the
  too-many-keys error: the size is checked first.
\<close>

theorem validate_iff_counterexample:
  "len (no_tables(0 := crowd CHR ''a'' 51)) (Some 0) = 51 \<and>
   replicate 41 CHR ''a'' \<in> keys (no_tables(0 := crowd CHR ''a'' 51)) (Some 0) \<and>
   length (replicate 41 CHR ''a'') = 41 \<and>
   validate (no_tables(0 := crowd CHR ''a'' 51)) (Some 0) = Some errTooMuchMetadataKeys"
proof -
  have "replicate (Suc 40) CHR ''a'' \<in> (\<lambda>i. replicate (Suc i) CHR ''a'') ` {0..<51}"
    by (rule image_eqI [of _ _ 40]) simp_all
  then have "replicate 41 CHR ''a'' \<in> keys (no_tables(0 := crowd CHR ''a'' 51)) (Some 0)"
    by (simp add: keys_def entries_def crowd_def image_image)
  then show ?thesis
    by (simp add: validate_def len_def entries_def crowd_def)
qed



text \<open>
  C9, as amended. The key-length check measures a key in bytes, not in characters: in a
  map of at most 50 entries, for every key whose byte length exceeds 40, validation fails
  with the key-too-long error of a key of more than 40 bytes, however few characters the
  key has.
\<close>

theorem validate_counts_bytes:
  assumes "len s m \<le> 50" and "k \<in> keys s m" and "40 < length k"
  shows "\<exists>k' \<in> keys s m. 40 < length k' \<and>
           validate s m = Some (errMetadataKey k' (length k'))"
  using validate_key_error [of s m] assms by blast

text \<open>A key of 21 characters and 42 bytes, alone in its map.\<close>

theorem validate_counts_bytes_witness:
  "length (replicate 21 (0xE9::nat)) \<le> 40 \<and> length (utf8 (replicate 21 0xE9)) = 42 \<and>
   validate (no_tables(0 := [(utf8 (replicate 21 0xE9), 1::int)])) (Some 0)
     = Some (errMetadataKey (utf8 (replicate 21 0xE9)) 42)"
proof -
  let ?k = "utf8 (replicate 21 0xE9)"
  let ?s = "no_tables(0 := [(?k, 1::int)])"
  have l: "length ?k = 42"
    by (rule length_utf8_e_acute)
  have keys: "keys ?s (Some 0) = {?k}"
    by (simp add: keys_def entries_def)
  have len: "len ?s (Some 0) \<le> 50"
    by (simp add: len_def entries_def)
  show ?thesis
    using validate_counts_bytes [of ?s "Some 0" ?k] len l
    unfolding keys by simp
qed

text \<open>
  The claim as first written has no bound on the size of the map. The same key among 50
  short keys, 51 entries in all, fails with the too-many-keys error.
\<close>

theorem validate_counts_bytes_counterexample:
  "utf8 (replicate 21 0xE9) \<in>
     keys (no_tables(0 := (utf8 (replicate 21 0xE9), 0) # crowd CHR ''a'' 40 @ crowd CHR ''b'' 10))
       (Some 0) \<and>
   40 < length (utf8 (replicate 21 0xE9)) \<and>
   validate (no_tables(0 := (utf8 (replicate 21 0xE9), 0) # crowd CHR ''a'' 40 @ crowd CHR ''b'' 10))
     (Some 0) = Some errTooMuchMetadataKeys"
proof -
  have "length (utf8 (replicate 21 0xE9)) = 42"
    by (rule length_utf8_e_acute)
  then show ?thesis
    by (simp add: keys_def validate_def len_def entries_def crowd_def)
qed

text \<open>
  C4. \<^verbatim>\<open>defaultTime\<close> turns the zero timestamp into the current time in UTC, and returns
  every other timestamp exactly as it is, its location included: no conversion is
  applied.
\<close>

theorem defaultTime_cases:
  "defaultTime Now UTC Time_zero = UTC Now \<and>
   (t \<noteq> Time_zero \<longrightarrow> defaultTime Now UTC t = t)"
  by (simp add: defaultTime_def)

text \<open>
  A clock reading in a local zone, with a conversion that clears the location; a
  timestamp with a zone of its own is kept, also one whose words are both zero.
\<close>

theorem defaultTime_cases_witness:
  "defaultTime \<lparr>wall = 9, ext = 4, loc = Some 1\<rparr> (loc_update (\<lambda>_. None)) Time_zero
     = \<lparr>wall = 9, ext = 4, loc = None\<rparr> \<and>
   defaultTime \<lparr>wall = 9, ext = 4, loc = Some 1\<rparr> (loc_update (\<lambda>_. None))
     \<lparr>wall = 5, ext = 7, loc = Some 3\<rparr> = \<lparr>wall = 5, ext = 7, loc = Some 3\<rparr> \<and>
   defaultTime \<lparr>wall = 9, ext = 4, loc = Some 1\<rparr> (loc_update (\<lambda>_. None))
     \<lparr>wall = 0, ext = 0, loc = Some 3\<rparr> = \<lparr>wall = 0, ext = 0, loc = Some 3\<rparr>"
  using defaultTime_cases [of "\<lparr>wall = 9, ext = 4, loc = Some 1\<rparr>" "loc_update (\<lambda>_. None)"
      "\<lparr>wall = 5, ext = 7, loc = Some 3\<rparr>"]
    defaultTime_cases [of "\<lparr>wall = 9, ext = 4, loc = Some 1\<rparr>" "loc_update (\<lambda>_. None)"
      "\<lparr>wall = 0, ext = 0, loc = Some 3\<rparr>"]
  by (simp add: Time_zero_def)

text \<open>
  C5. \<^verbatim>\<open>defaultIdempotencyKey\<close> turns the empty key into a non-empty string in the
  standard textual representation of a version-4 UUID, whatever the random bytes are,
  and returns every non-empty key, \<open>abc\<close> for one, exactly as it is.
\<close>

theorem defaultIdempotencyKey_cases:
  "(key = [] \<longrightarrow> is_uuid_v4_text (defaultIdempotencyKey rand key) \<and>
                  defaultIdempotencyKey rand key \<noteq> []) \<and>
   (key \<noteq> [] \<longrightarrow> defaultIdempotencyKey rand key = key)"
proof -
  have "length (uuid_String (uuid_New rand)) = 36"
    using uuid_text_shape [of rand] by (simp add: is_uuid_text_def)
  then have "uuid_String (uuid_New rand) \<noteq> []"
    by auto
  then show ?thesis
    unfolding defaultIdempotencyKey_def is_uuid_v4_text_def
    using uuid_text_shape [of rand] uuid_text_version [of rand] uuid_text_variant [of rand]
    by auto
qed

text \<open>With the random bytes 0, 1, 2, ..., 15.\<close>

theorem defaultIdempotencyKey_cases_witness:
  "is_uuid_v4_text (defaultIdempotencyKey word_of_nat []) \<and>
   defaultIdempotencyKey word_of_nat [] = ''00010203-0405-4607-8809-0a0b0c0d0e0f'' \<and>
   defaultIdempotencyKey word_of_nat ''abc'' = ''abc''"
proof -
  have "defaultIdempotencyKey word_of_nat [] = ''00010203-0405-4607-8809-0a0b0c0d0e0f''"
    by (simp add: defaultIdempotencyKey_def uuid_New_bytes uuid_String_def hex_Encode_def
        hextable_def drop_bit_eq_div)
  then show ?thesis
    using defaultIdempotencyKey_cases [of "[]" word_of_nat]
      defaultIdempotencyKey_cases [of "''abc''" word_of_nat]
    by simp
qed

text \<open>
  C6. Preparing an event whose timestamp is not zero, whose idempotency key is not empty
  and whose metadata passes validation (at most 50 keys, each of length at most 40),
  with empty global metadata, returns no error and no panic, and returns the event as it
  was: timestamp, idempotency key and metadata are unchanged, and so is every table of
  the store.
\<close>

theorem prepare_roundtrip:
  assumes "OccurredAt e \<noteq> Time_zero" and "IdempotencyKey e \<noteq> []"
    and "len s (Metadata e) \<le> 50" and "\<forall>k \<in> keys s (Metadata e). length k \<le> 40"
    and "entries s g = []"
  shows "prepare Now UTC rand s e g = Inr (Inr (e, s))"
proof -
  have "validate s (Metadata e) = None"
    using assms(3,4) by (auto simp: validate_def keys_def validate_range_None)
  moreover have "merge s (Metadata e) g = Inr s"
    using assms(5) by (simp add: merge_def)
  ultimately show ?thesis
    using assms(1,2)
    by (simp add: prepare_def defaultTime_def defaultIdempotencyKey_def)
qed

text \<open>The example event with two metadata keys, and nil global metadata.\<close>

theorem prepare_roundtrip_witness:
  "prepare \<lparr>wall = 9, ext = 4, loc = Some 1\<rparr> (loc_update (\<lambda>_. None)) word_of_nat
     (no_tables(0 := [(''source'', 1::int), (''region'', 2)])) example_event None
   = Inr (Inr (example_event, no_tables(0 := [(''source'', 1), (''region'', 2)])))"
proof -
  let ?s = "no_tables(0 := [(''source'', 1::int), (''region'', 2)])"
  have "OccurredAt example_event \<noteq> Time_zero" "IdempotencyKey example_event \<noteq> []"
    by (simp_all add: example_event_def Time_zero_def)
  moreover have "len ?s (Metadata example_event) \<le> 50"
    by (simp add: example_event_def len_def entries_def)
  moreover have "\<forall>k \<in> keys ?s (Metadata example_event). length k \<le> 40"
    by (simp add: example_event_def keys_def entries_def)
  moreover have "entries ?s None = []"
    by (simp add: entries_def)
  ultimately show ?thesis
    by (rule prepare_roundtrip)
qed

end
